theory Spec2Isabelle
  imports Main "HOL-Library.Word"
begin

unbundle bit_operations_syntax

section \<open>The data of filemutex\_windows.go\<close>

text \<open>
  Go's \<open>uintptr\<close> is taken at the width of windows/amd64. \<open>syscall.Handle\<close> and
  \<open>syscall.Errno\<close> are both \<open>uintptr\<close> on Windows. A \<open>rune\<close> is an \<open>int32\<close>; the
  runes computed here are code points, below \<open>0x110000\<close>, so they are taken as \<open>int\<close>.
\<close>

type_synonym uintptr = "64 word"
type_synonym uint32 = "32 word"
type_synonym int32 = "32 word"
type_synonym uint16 = "16 word"
type_synonym byte = "8 word"
type_synonym rune = int
type_synonym handle = uintptr
type_synonym errno = uintptr

text \<open>
  A Go \<open>error\<close> is \<open>error option\<close>, \<open>None\<close> being \<open>nil\<close>. The dynamic types that reach
  this file are \<open>syscall.Errno\<close> and the package's own \<open>AlreadyLocked\<close>.

  Modelled from the spec: \<open>AlreadyLocked\<close>, the package-level error value that
  \<open>TryLock\<close> returns, is declared in a file of the package that is not part of the
  source at hand. The spec calls it a distinguished outcome that the caller can tell
  from an I/O error without reading error text, so it is a constructor of its own.
\<close>

datatype error = Errno errno | AlreadyLocked

text \<open>\<open>syscall.Overlapped\<close>; \<open>Offset\<close> and \<open>OffsetHigh\<close> give the start of a byte range.\<close>

record Overlapped =
  Internal :: uintptr
  InternalHigh :: uintptr
  Offset :: uint32
  OffsetHigh :: uint32
  HEvent :: handle

text \<open>\<open>var ol syscall.Overlapped\<close>: Go's zero value.\<close>

definition zero_Overlapped :: Overlapped where
  "zero_Overlapped =
     \<lparr>Internal = 0, InternalHigh = 0, Offset = 0, OffsetHigh = 0, HEvent = 0\<rparr>"

text \<open>\<open>type FileMutex struct { fd syscall.Handle }\<close>\<close>

record FileMutex =
  fd :: handle

text \<open>
  The requests the file sends to the operating system, with the arguments as they are
  passed. \<open>SysCreateFile\<close> is \<open>syscall.CreateFile\<close> (name, access, share mode, create
  mode, attributes, template file; the security attributes are always \<open>nil\<close>). The
  name is the sequence of UTF-16 units behind the pointer, with the NUL unit that ends
  it.
  \<open>SysLockFileEx\<close> and \<open>SysUnlockFileEx\<close> are the two \<open>syscall.Syscall6\<close> calls, on
  \<open>procLockFileEx\<close> (handle, flags, reserved, length low, length high, overlapped) and
  on \<open>procUnlockFileEx\<close> (handle, reserved, length low, length high, overlapped).
  \<open>SysCloseHandle\<close> is \<open>syscall.Close\<close>. The \<open>Overlapped\<close> behind the pointer is passed
  by value: the code never reads it after the call.
\<close>

datatype syscall =
    SysCreateFile "uint16 list" uint32 uint32 uint32 uint32 int32
  | SysLockFileEx uintptr uintptr uintptr uintptr uintptr Overlapped
  | SysUnlockFileEx uintptr uintptr uintptr uintptr Overlapped
  | SysCloseHandle handle

text \<open>
  The operating system is a black box: any state \<open>'k\<close> and any answers. An answer of
  \<open>Syscall6\<close> is the pair \<open>(r1, e1)\<close>; \<open>syscall.CreateFile\<close> answers a handle and an
  error, \<open>syscall.Close\<close> an error.
\<close>

record 'k os =
  os_Syscall6 :: "syscall \<Rightarrow> 'k \<Rightarrow> (uintptr \<times> errno) \<times> 'k"
  os_CreateFile :: "syscall \<Rightarrow> 'k \<Rightarrow> (handle \<times> error option) \<times> 'k"
  os_Close :: "syscall \<Rightarrow> 'k \<Rightarrow> error option \<times> 'k"

text \<open>
  The world a call runs in: the state of the operating system and the log of the
  requests sent so far, oldest first. The log is what the theorems about requests
  (which, how many, on which byte range) are stated on.
\<close>

record 'k world =
  os_state :: 'k
  issued :: "syscall list"

definition Syscall6 :: "'k os \<Rightarrow> syscall \<Rightarrow> 'k world \<Rightarrow> (uintptr \<times> errno) \<times> 'k world" where
  "Syscall6 os c w =
     (let (r, k') = os_Syscall6 os c (os_state w)
      in (r, \<lparr>os_state = k', issued = issued w @ [c]\<rparr>))"

definition CreateFile ::
  "'k os \<Rightarrow> uint16 list \<Rightarrow> uint32 \<Rightarrow> uint32 \<Rightarrow> uint32 \<Rightarrow> uint32 \<Rightarrow> int32 \<Rightarrow> 'k world
     \<Rightarrow> (handle \<times> error option) \<times> 'k world" where
  "CreateFile os name access mode createmode attrs templatefile w =
     (let c = SysCreateFile name access mode createmode attrs templatefile;
          (r, k') = os_CreateFile os c (os_state w)
      in (r, \<lparr>os_state = k', issued = issued w @ [c]\<rparr>))"

definition syscall_Close :: "'k os \<Rightarrow> handle \<Rightarrow> 'k world \<Rightarrow> error option \<times> 'k world" where
  "syscall_Close os h w =
     (let c = SysCloseHandle h;
          (r, k') = os_Close os c (os_state w)
      in (r, \<lparr>os_state = k', issued = issued w @ [c]\<rparr>))"

text \<open>Constants of Go's \<open>syscall\<close> package on Windows.\<close>

definition GENERIC_READ :: uint32 where "GENERIC_READ = 0x80000000"
definition GENERIC_WRITE :: uint32 where "GENERIC_WRITE = 0x40000000"
definition FILE_SHARE_READ :: uint32 where "FILE_SHARE_READ = 0x00000001"
definition FILE_SHARE_WRITE :: uint32 where "FILE_SHARE_WRITE = 0x00000002"
definition OPEN_ALWAYS :: uint32 where "OPEN_ALWAYS = 4"
definition FILE_ATTRIBUTE_NORMAL :: uint32 where "FILE_ATTRIBUTE_NORMAL = 0x00000080"

text \<open>\<open>syscall.EINVAL\<close> on Windows is an invented value, \<open>APPLICATION_ERROR + 39\<close>.\<close>

definition EINVAL :: errno where "EINVAL = 0x20000027"

text \<open>The constants of the file itself.\<close>

definition lockfileFailImmediately :: uint32 where "lockfileFailImmediately = 1"
definition lockfileExclusiveLock :: uint32 where "lockfileExclusiveLock = 2"

section \<open>The syscall wrappers\<close>

text \<open>
  \<open>uintptr(x)\<close> of a \<open>uint32\<close> is \<open>ucast\<close>: it extends with zeros.
  \<open>procLockFileEx.Addr()\<close> and \<open>procUnlockFileEx.Addr()\<close> are taken to find their
  procedures, which kernel32.dll exports.
\<close>

definition lockFileEx ::
  "'k os \<Rightarrow> handle \<Rightarrow> uint32 \<Rightarrow> uint32 \<Rightarrow> uint32 \<Rightarrow> uint32 \<Rightarrow> Overlapped \<Rightarrow> 'k world
     \<Rightarrow> error option \<times> 'k world" where
  "lockFileEx os h flags reserved locklow lockhigh ol w =
     (let ((r1, e1), w') =
            Syscall6 os (SysLockFileEx h (ucast flags) (ucast reserved) (ucast locklow)
                           (ucast lockhigh) ol) w
      in (if r1 = 0 then (if e1 \<noteq> 0 then Some (Errno e1) else Some (Errno EINVAL))
          else None, w'))"

definition unlockFileEx ::
  "'k os \<Rightarrow> handle \<Rightarrow> uint32 \<Rightarrow> uint32 \<Rightarrow> uint32 \<Rightarrow> Overlapped \<Rightarrow> 'k world
     \<Rightarrow> error option \<times> 'k world" where
  "unlockFileEx os h reserved locklow lockhigh ol w =
     (let ((r1, e1), w') =
            Syscall6 os (SysUnlockFileEx h (ucast reserved) (ucast locklow)
                           (ucast lockhigh) ol) w
      in (if r1 = 0 then (if e1 \<noteq> 0 then Some (Errno e1) else Some (Errno EINVAL))
          else None, w'))"

section \<open>The constructors\<close>

text \<open>A call either returns or panics.\<close>

datatype 'a outcome = Panics | Returns 'a

text \<open>
  \<open>syscall.StringToUTF16\<close> panics on a string with a NUL byte. Otherwise it returns
  \<open>utf16.Encode([]rune(s + NUL))\<close>: the string, with a NUL byte added, is read as
  UTF-8 into runes, and the runes are written as UTF-16 units. The slice it returns is
  never empty, so taking the address of its element 0 in \<open>New\<close> does not fail.

  \<open>runes\<close> is the conversion \<open>[]rune(s)\<close>, which reads with \<open>utf8.DecodeRune\<close>: a
  byte below \<open>0x80\<close> is its own rune; a lead byte \<open>0xC2\<close> to \<open>0xF4\<close> followed by the
  continuation bytes it needs, the first one in the range the lead byte accepts, gives
  the rune of the sequence; any other byte gives \<open>RuneError\<close> (\<open>U+FFFD\<close>) and is
  passed alone. That range excludes the overlong forms, the surrogates and the values
  above \<open>U+10FFFF\<close>.
\<close>

definition RuneError :: rune where "RuneError = 0xFFFD"

definition accept :: "byte \<Rightarrow> byte \<Rightarrow> bool" where
  "accept s0 s1 =
     ((if s0 = 0xE0 then 0xA0 else if s0 = 0xF0 then 0x90 else 0x80) \<le> s1
      \<and> s1 \<le> (if s0 = 0xED then 0x9F else if s0 = 0xF4 then 0x8F else 0xBF))"

definition cont :: "byte \<Rightarrow> bool" where
  "cont b = (0x80 \<le> b \<and> b \<le> 0xBF)"

fun runes :: "byte list \<Rightarrow> rune list" where
  "runes [] = []"
| "runes (s0 # s) =
     (if s0 < 0x80 then uint s0 # runes s
      else if s0 < 0xC2 \<or> 0xF4 < s0 then RuneError # runes s
      else if s0 < 0xE0 then
        (case s of
           s1 # t \<Rightarrow>
             if accept s0 s1
             then (push_bit 6 (uint (s0 AND 0x1F)) OR uint (s1 AND 0x3F)) # runes t
             else RuneError # runes s
         | _ \<Rightarrow> RuneError # runes s)
      else if s0 < 0xF0 then
        (case s of
           s1 # s2 # t \<Rightarrow>
             if accept s0 s1 \<and> cont s2
             then (push_bit 12 (uint (s0 AND 0x0F)) OR push_bit 6 (uint (s1 AND 0x3F))
                     OR uint (s2 AND 0x3F)) # runes t
             else RuneError # runes s
         | _ \<Rightarrow> RuneError # runes s)
      else
        (case s of
           s1 # s2 # s3 # t \<Rightarrow>
             if accept s0 s1 \<and> cont s2 \<and> cont s3
             then (push_bit 18 (uint (s0 AND 0x07)) OR push_bit 12 (uint (s1 AND 0x3F))
                     OR push_bit 6 (uint (s2 AND 0x3F)) OR uint (s3 AND 0x3F)) # runes t
             else RuneError # runes s
         | _ \<Rightarrow> RuneError # runes s))"

text \<open>
  \<open>utf16.EncodeRune\<close> and \<open>utf16.Encode\<close>: a rune outside the surrogates and below
  \<open>0x10000\<close> is one unit, a rune from \<open>0x10000\<close> to \<open>0x10FFFF\<close> is a surrogate
  pair, anything else is the unit \<open>0xFFFD\<close>.
\<close>

definition EncodeRune :: "rune \<Rightarrow> rune \<times> rune" where
  "EncodeRune r =
     (let r' = r - 0x10000
      in (0xD800 + (drop_bit 10 r' AND 0x3FF), 0xDC00 + (r' AND 0x3FF)))"

definition Encode1 :: "rune \<Rightarrow> uint16 list" where
  "Encode1 v =
     (if (0 \<le> v \<and> v < 0xD800) \<or> (0xE000 \<le> v \<and> v < 0x10000) then [word_of_int v]
      else if 0x10000 \<le> v \<and> v \<le> 0x10FFFF
      then (let (r1, r2) = EncodeRune v in [word_of_int r1, word_of_int r2])
      else [word_of_int 0xFFFD])"

definition Encode :: "rune list \<Rightarrow> uint16 list" where
  "Encode s = concat (map Encode1 s)"

text \<open>
  This is the conversion of Go's \<open>syscall\<close> package up to Go 1.20. From Go 1.21 on the
  package differs on one kind of input: three bytes \<open>0xED\<close>, \<open>0xA0\<close> to \<open>0xBF\<close>,
  \<open>0x80\<close> to \<open>0xBF\<close>, a surrogate written in the manner of UTF-8, become that
  surrogate as one unit and not three units \<open>0xFFFD\<close>. The panic on a NUL byte is the
  same in both, and no statement below depends on the units of a name.
\<close>

definition StringToUTF16 :: "string \<Rightarrow> uint16 list outcome" where
  "StringToUTF16 s =
     (if CHR 0x00 \<in> set s then Panics
      else Returns (Encode (runes (map of_char (s @ [CHR 0x00])))))"

definition New ::
  "'k os \<Rightarrow> string \<Rightarrow> 'k world \<Rightarrow> ((FileMutex option \<times> error option) \<times> 'k world) outcome" where
  "New os filename w =
     (case StringToUTF16 filename of
        Panics \<Rightarrow> Panics
      | Returns name \<Rightarrow>
          (let ((h, err), w') =
                 CreateFile os name (GENERIC_READ OR GENERIC_WRITE)
                   (FILE_SHARE_READ OR FILE_SHARE_WRITE) OPEN_ALWAYS FILE_ATTRIBUTE_NORMAL 0 w
           in if err \<noteq> None then Returns ((None, err), w')
              else Returns ((Some \<lparr>fd = h\<rparr>, None), w')))"

definition NewWithPermission ::
  "'k os \<Rightarrow> string \<Rightarrow> uint32 \<Rightarrow> 'k world
     \<Rightarrow> ((FileMutex option \<times> error option) \<times> 'k world) outcome" where
  "NewWithPermission os filename perm w = New os filename w"

section \<open>The methods\<close>

text \<open>
  A method has a pointer receiver, so it could assign to the fields of its
  \<open>FileMutex\<close>: each method returns the receiver as it leaves it, between the error and
  the world.
\<close>

definition TryLock :: "'k os \<Rightarrow> FileMutex \<Rightarrow> 'k world \<Rightarrow> error option \<times> FileMutex \<times> 'k world" where
  "TryLock os m w =
     (let ol = zero_Overlapped;
          (err, w') = lockFileEx os (fd m) (lockfileFailImmediately OR lockfileExclusiveLock)
                        0 1 0 ol w
      in case err of
           Some e \<Rightarrow>
             (case e of
                Errno errno \<Rightarrow>
                  if errno = 0x21 then (Some AlreadyLocked, m, w') else (err, m, w')
              | _ \<Rightarrow> (err, m, w'))
         | None \<Rightarrow> (None, m, w'))"

definition Lock :: "'k os \<Rightarrow> FileMutex \<Rightarrow> 'k world \<Rightarrow> error option \<times> FileMutex \<times> 'k world" where
  "Lock os m w =
     (let ol = zero_Overlapped;
          (err, w') = lockFileEx os (fd m) lockfileExclusiveLock 0 1 0 ol w
      in if err \<noteq> None then (err, m, w') else (None, m, w'))"

definition Unlock :: "'k os \<Rightarrow> FileMutex \<Rightarrow> 'k world \<Rightarrow> error option \<times> FileMutex \<times> 'k world" where
  "Unlock os m w =
     (let ol = zero_Overlapped;
          (err, w') = unlockFileEx os (fd m) 0 1 0 ol w
      in if err \<noteq> None then (err, m, w') else (None, m, w'))"

definition RLock :: "'k os \<Rightarrow> FileMutex \<Rightarrow> 'k world \<Rightarrow> error option \<times> FileMutex \<times> 'k world" where
  "RLock os m w =
     (let ol = zero_Overlapped;
          (err, w') = lockFileEx os (fd m) 0 0 1 0 ol w
      in if err \<noteq> None then (err, m, w') else (None, m, w'))"

definition RUnlock :: "'k os \<Rightarrow> FileMutex \<Rightarrow> 'k world \<Rightarrow> error option \<times> FileMutex \<times> 'k world" where
  "RUnlock os m w =
     (let ol = zero_Overlapped;
          (err, w') = unlockFileEx os (fd m) 0 1 0 ol w
      in if err \<noteq> None then (err, m, w') else (None, m, w'))"

text \<open>\<open>Close\<close> returns at once when the unlock reports an error.\<close>

definition Close :: "'k os \<Rightarrow> FileMutex \<Rightarrow> 'k world \<Rightarrow> error option \<times> FileMutex \<times> 'k world" where
  "Close os m w =
     (let ol = zero_Overlapped;
          (err, w') = unlockFileEx os (fd m) 0 1 0 ol w
      in if err \<noteq> None then (err, m, w')
         else (let (cerr, w'') = syscall_Close os (fd m) w' in (cerr, m, w'')))"

section \<open>Notions the properties are stated with\<close>

text \<open>The requests sent between two worlds of one run.\<close>

definition calls_between :: "'k world \<Rightarrow> 'k world \<Rightarrow> syscall list" where
  "calls_between w w' = drop (length (issued w)) (issued w')"

text \<open>
  The byte range a lock or unlock request names: where it starts (\<open>Offset\<close>,
  \<open>OffsetHigh\<close> of the overlapped structure) and its length (low, high).
\<close>

fun byte_range :: "syscall \<Rightarrow> (uint32 \<times> uint32 \<times> uintptr \<times> uintptr) option" where
  "byte_range (SysLockFileEx h flags reserved lo hi ol) = Some (Offset ol, OffsetHigh ol, lo, hi)"
| "byte_range (SysUnlockFileEx h reserved lo hi ol) = Some (Offset ol, OffsetHigh ol, lo, hi)"
| "byte_range (SysCreateFile name access mode createmode attrs templatefile) = None"
| "byte_range (SysCloseHandle h) = None"

text \<open>The sentinel: one byte at offset 0.\<close>

definition sentinel :: "uint32 \<times> uint32 \<times> uintptr \<times> uintptr" where
  "sentinel = (0, 0, 1, 0)"

text \<open>Whether a request is a lock request that carries the fail-immediately flag.\<close>

fun fail_immediately :: "syscall \<Rightarrow> bool" where
  "fail_immediately (SysLockFileEx h flags reserved lo hi ol) =
     (flags AND ucast lockfileFailImmediately = ucast lockfileFailImmediately)"
| "fail_immediately (SysUnlockFileEx h reserved lo hi ol) = False"
| "fail_immediately (SysCreateFile name access mode createmode attrs templatefile) = False"
| "fail_immediately (SysCloseHandle h) = False"

text \<open>
  An operating system for running the model on concrete inputs: it answers every
  \<open>Syscall6\<close> with \<open>sc\<close>, every \<open>syscall.CreateFile\<close> with \<open>cf\<close> and every
  \<open>syscall.Close\<close> with \<open>cl\<close>, and has no state.
\<close>

definition stub_os :: "uintptr \<times> errno \<Rightarrow> handle \<times> error option \<Rightarrow> error option \<Rightarrow> unit os" where
  "stub_os sc cf cl =
     \<lparr>os_Syscall6 = (\<lambda>c k. (sc, k)), os_CreateFile = (\<lambda>c k. (cf, k)),
      os_Close = (\<lambda>c k. (cl, k))\<rparr>"

definition w0 :: "unit world" where
  "w0 = \<lparr>os_state = (), issued = []\<rparr>"

section \<open>Each operation in terms of the answers it gets\<close>

lemma lockFileEx_eq:
  "os_Syscall6 os (SysLockFileEx h (ucast flags) (ucast reserved) (ucast lo) (ucast hi) ol)
      (os_state w) = ((r1, e1), k')
   \<Longrightarrow> lockFileEx os h flags reserved lo hi ol w =
       (if r1 = 0 then Some (Errno (if e1 \<noteq> 0 then e1 else EINVAL)) else None,
        \<lparr>os_state = k',
         issued = issued w @ [SysLockFileEx h (ucast flags) (ucast reserved) (ucast lo)
                                (ucast hi) ol]\<rparr>)"
  by (simp add: lockFileEx_def Syscall6_def)

lemma unlockFileEx_eq:
  "os_Syscall6 os (SysUnlockFileEx h (ucast reserved) (ucast lo) (ucast hi) ol)
      (os_state w) = ((r1, e1), k')
   \<Longrightarrow> unlockFileEx os h reserved lo hi ol w =
       (if r1 = 0 then Some (Errno (if e1 \<noteq> 0 then e1 else EINVAL)) else None,
        \<lparr>os_state = k',
         issued = issued w @ [SysUnlockFileEx h (ucast reserved) (ucast lo) (ucast hi) ol]\<rparr>)"
  by (simp add: unlockFileEx_def Syscall6_def)

lemma flags_ucast:
  "(ucast lockfileExclusiveLock :: uintptr) = 2"
  "(ucast (lockfileFailImmediately OR lockfileExclusiveLock) :: uintptr) = 3"
  "(ucast lockfileFailImmediately :: uintptr) = 1"
  by (simp_all add: lockfileFailImmediately_def lockfileExclusiveLock_def)

lemma EINVAL_not_lock_violation: "EINVAL \<noteq> 0x21"
  by (simp add: EINVAL_def)

lemma calls_between_append [simp]:
  "calls_between w \<lparr>os_state = k, issued = issued w @ cs\<rparr> = cs"
  by (simp add: calls_between_def)

lemma Lock_eq:
  assumes "os_Syscall6 os (SysLockFileEx (fd m) 2 0 1 0 zero_Overlapped) (os_state w)
             = ((r1, e1), k')"
  shows "Lock os m w =
           (if r1 = 0 then Some (Errno (if e1 \<noteq> 0 then e1 else EINVAL)) else None, m,
            \<lparr>os_state = k',
             issued = issued w @ [SysLockFileEx (fd m) 2 0 1 0 zero_Overlapped]\<rparr>)"
proof -
  have "lockFileEx os (fd m) lockfileExclusiveLock 0 1 0 zero_Overlapped w =
          (if r1 = 0 then Some (Errno (if e1 \<noteq> 0 then e1 else EINVAL)) else None,
           \<lparr>os_state = k',
            issued = issued w @ [SysLockFileEx (fd m) 2 0 1 0 zero_Overlapped]\<rparr>)"
    using assms lockFileEx_eq [of os "fd m" lockfileExclusiveLock 0 1 0 zero_Overlapped w r1 e1 k']
    by (simp add: flags_ucast)
  then show ?thesis
    by (simp add: Lock_def)
qed

lemma RLock_eq:
  assumes "os_Syscall6 os (SysLockFileEx (fd m) 0 0 1 0 zero_Overlapped) (os_state w)
             = ((r1, e1), k')"
  shows "RLock os m w =
           (if r1 = 0 then Some (Errno (if e1 \<noteq> 0 then e1 else EINVAL)) else None, m,
            \<lparr>os_state = k',
             issued = issued w @ [SysLockFileEx (fd m) 0 0 1 0 zero_Overlapped]\<rparr>)"
proof -
  have "lockFileEx os (fd m) 0 0 1 0 zero_Overlapped w =
          (if r1 = 0 then Some (Errno (if e1 \<noteq> 0 then e1 else EINVAL)) else None,
           \<lparr>os_state = k',
            issued = issued w @ [SysLockFileEx (fd m) 0 0 1 0 zero_Overlapped]\<rparr>)"
    using assms lockFileEx_eq [of os "fd m" 0 0 1 0 zero_Overlapped w r1 e1 k']
    by simp
  then show ?thesis
    by (simp add: RLock_def)
qed

lemma TryLock_eq:
  assumes "os_Syscall6 os (SysLockFileEx (fd m) 3 0 1 0 zero_Overlapped) (os_state w)
             = ((r1, e1), k')"
  shows "TryLock os m w =
           (if r1 = 0
            then Some (if e1 = 0x21 then AlreadyLocked
                       else Errno (if e1 \<noteq> 0 then e1 else EINVAL))
            else None, m,
            \<lparr>os_state = k',
             issued = issued w @ [SysLockFileEx (fd m) 3 0 1 0 zero_Overlapped]\<rparr>)"
proof -
  have "lockFileEx os (fd m) (lockfileFailImmediately OR lockfileExclusiveLock) 0 1 0
          zero_Overlapped w =
          (if r1 = 0 then Some (Errno (if e1 \<noteq> 0 then e1 else EINVAL)) else None,
           \<lparr>os_state = k',
            issued = issued w @ [SysLockFileEx (fd m) 3 0 1 0 zero_Overlapped]\<rparr>)"
    using assms
      lockFileEx_eq [of os "fd m" "lockfileFailImmediately OR lockfileExclusiveLock" 0 1 0
                        zero_Overlapped w r1 e1 k']
    by (simp add: flags_ucast)
  then show ?thesis
    using EINVAL_not_lock_violation by (simp add: TryLock_def)
qed

lemma unlock_step_eq:
  assumes "os_Syscall6 os (SysUnlockFileEx (fd m) 0 1 0 zero_Overlapped) (os_state w)
             = ((r1, e1), k')"
  shows "unlockFileEx os (fd m) 0 1 0 zero_Overlapped w =
          (if r1 = 0 then Some (Errno (if e1 \<noteq> 0 then e1 else EINVAL)) else None,
           \<lparr>os_state = k',
            issued = issued w @ [SysUnlockFileEx (fd m) 0 1 0 zero_Overlapped]\<rparr>)"
  using assms unlockFileEx_eq [of os "fd m" 0 1 0 zero_Overlapped w r1 e1 k']
  by simp

lemma Unlock_eq:
  assumes "os_Syscall6 os (SysUnlockFileEx (fd m) 0 1 0 zero_Overlapped) (os_state w)
             = ((r1, e1), k')"
  shows "Unlock os m w =
           (if r1 = 0 then Some (Errno (if e1 \<noteq> 0 then e1 else EINVAL)) else None, m,
            \<lparr>os_state = k',
             issued = issued w @ [SysUnlockFileEx (fd m) 0 1 0 zero_Overlapped]\<rparr>)"
  using unlock_step_eq [OF assms] by (simp add: Unlock_def)

lemma RUnlock_eq:
  assumes "os_Syscall6 os (SysUnlockFileEx (fd m) 0 1 0 zero_Overlapped) (os_state w)
             = ((r1, e1), k')"
  shows "RUnlock os m w =
           (if r1 = 0 then Some (Errno (if e1 \<noteq> 0 then e1 else EINVAL)) else None, m,
            \<lparr>os_state = k',
             issued = issued w @ [SysUnlockFileEx (fd m) 0 1 0 zero_Overlapped]\<rparr>)"
  using unlock_step_eq [OF assms] by (simp add: RUnlock_def)

lemma Close_eq:
  assumes "os_Syscall6 os (SysUnlockFileEx (fd m) 0 1 0 zero_Overlapped) (os_state w)
             = ((r1, e1), k')"
      and "os_Close os (SysCloseHandle (fd m)) k' = (cerr, k'')"
  shows "Close os m w =
           (if r1 = 0
            then (Some (Errno (if e1 \<noteq> 0 then e1 else EINVAL)), m,
                  \<lparr>os_state = k',
                   issued = issued w @ [SysUnlockFileEx (fd m) 0 1 0 zero_Overlapped]\<rparr>)
            else (cerr, m,
                  \<lparr>os_state = k'',
                   issued = issued w @ [SysUnlockFileEx (fd m) 0 1 0 zero_Overlapped,
                                        SysCloseHandle (fd m)]\<rparr>))"
  using unlock_step_eq [OF assms(1)] assms(2)
  by (simp add: Close_def syscall_Close_def)

lemma StringToUTF16_Returns:
  "CHR 0x00 \<notin> set filename \<Longrightarrow> \<exists>name. StringToUTF16 filename = Returns name"
  by (simp add: StringToUTF16_def)

lemma StringToUTF16_Panics:
  "StringToUTF16 filename = Panics \<longleftrightarrow> CHR 0x00 \<in> set filename"
  by (simp add: StringToUTF16_def)

lemma New_eq:
  assumes "StringToUTF16 filename = Returns name"
      and "os_CreateFile os
             (SysCreateFile name (GENERIC_READ OR GENERIC_WRITE)
                (FILE_SHARE_READ OR FILE_SHARE_WRITE) OPEN_ALWAYS FILE_ATTRIBUTE_NORMAL 0)
             (os_state w) = ((h, err), k')"
  shows "New os filename w =
           Returns ((if err \<noteq> None then None else Some \<lparr>fd = h\<rparr>, err),
                    \<lparr>os_state = k',
                     issued = issued w @
                       [SysCreateFile name (GENERIC_READ OR GENERIC_WRITE)
                          (FILE_SHARE_READ OR FILE_SHARE_WRITE) OPEN_ALWAYS
                          FILE_ATTRIBUTE_NORMAL 0]\<rparr>)"
  using assms by (auto simp add: New_def CreateFile_def)

lemma New_panics: "CHR 0x00 \<in> set filename \<Longrightarrow> New os filename w = Panics"
  by (simp add: New_def StringToUTF16_def)

text \<open>The conversion on the paths that the examples below use.\<close>

lemma StringToUTF16_a_lock:
  "StringToUTF16 ''a.lock'' = Returns [0x61, 0x2E, 0x6C, 0x6F, 0x63, 0x6B, 0]"
  by (simp add: StringToUTF16_def Encode_def Encode1_def)

lemma StringToUTF16_b_lock:
  "StringToUTF16 ''b.lock'' = Returns [0x62, 0x2E, 0x6C, 0x6F, 0x63, 0x6B, 0]"
  by (simp add: StringToUTF16_def Encode_def Encode1_def)

lemma StringToUTF16_invalid_byte:
  "StringToUTF16 [CHR 0xFF] = Returns [0xFFFD, 0]"
  by (simp add: StringToUTF16_def Encode_def Encode1_def RuneError_def)

lemma StringToUTF16_examples:
  "StringToUTF16 [CHR 0xC3, CHR 0xA9] = Returns [0xE9, 0]"
  "StringToUTF16 [CHR 0xE2, CHR 0x82, CHR 0xAC] = Returns [0x20AC, 0]"
  "StringToUTF16 [CHR 0xF0, CHR 0x9F, CHR 0x98, CHR 0x80] = Returns [0xD83D, 0xDE00, 0]"
  "StringToUTF16 [CHR 0xC0, CHR 0x80] = Returns [0xFFFD, 0xFFFD, 0]"
  "StringToUTF16 [CHR 0xE2, CHR 0x82] = Returns [0xFFFD, 0xFFFD, 0]"
  by (simp_all add: StringToUTF16_def Encode_def Encode1_def EncodeRune_def RuneError_def
        accept_def cont_def)

lemma flags_CreateFile:
  "GENERIC_READ OR GENERIC_WRITE = 0xC0000000"
  "FILE_SHARE_READ OR FILE_SHARE_WRITE = 3"
  "OPEN_ALWAYS = 4"
  "FILE_ATTRIBUTE_NORMAL = 0x80"
  by (simp_all add: GENERIC_READ_def GENERIC_WRITE_def FILE_SHARE_READ_def
        FILE_SHARE_WRITE_def OPEN_ALWAYS_def FILE_ATTRIBUTE_NORMAL_def)

text \<open>A path of the one byte \<open>0xFF\<close> is opened under the name \<open>U+FFFD\<close>.\<close>

lemma New_invalid_byte:
  "New (stub_os (1, 0) (7, None) None) [CHR 0xFF] w0 =
     Returns ((Some \<lparr>fd = 7\<rparr>, None),
              \<lparr>os_state = (),
               issued = [SysCreateFile [0xFFFD, 0] 0xC0000000 3 4 0x80 0]\<rparr>)"
  by (simp add: New_def StringToUTF16_invalid_byte CreateFile_def stub_os_def w0_def
        flags_CreateFile)

section \<open>The claims\<close>

text \<open>
  C1. \<open>Close\<close> is to surface the error of its unlock and to close the handle also
  when the unlock reported an error. On a \<open>FileMutex\<close> with handle 7 whose unlock
  request fails, here with code 158 (the range is not locked), \<open>Close\<close> returns the
  error of the unlock, and the unlock request is the only request it has sent: the
  handle is not closed.
\<close>

theorem Close_unlock_error_leaves_handle_open:
  "Close (stub_os (0, 158) (0, None) None) \<lparr>fd = 7\<rparr> w0 =
     (Some (Errno 158), \<lparr>fd = 7\<rparr>,
      \<lparr>os_state = (), issued = [SysUnlockFileEx 7 0 1 0 zero_Overlapped]\<rparr>)"
  by (simp add: Close_def unlockFileEx_def Syscall6_def stub_os_def w0_def)

text \<open>
  C2. When the lock is held elsewhere, the operating system answers the lock request of
  \<open>TryLock\<close> with failure and the lock-violation code \<open>0x21\<close>; \<open>TryLock\<close> then
  returns \<open>AlreadyLocked\<close>, a value of its own that is no \<open>Errno\<close>. Whatever the
  answer, the one request \<open>TryLock\<close> sends carries the fail-immediately flag.
\<close>

theorem TryLock_AlreadyLocked:
  "map fail_immediately (calls_between w (snd (snd (TryLock os m w)))) = [True]
   \<and> (fst (os_Syscall6 os (SysLockFileEx (fd m) 3 0 1 0 zero_Overlapped) (os_state w))
         = (0, 0x21)
        \<longrightarrow> fst (TryLock os m w) = Some AlreadyLocked)
   \<and> AlreadyLocked \<noteq> Errno e"
proof -
  obtain r1 e1 k' where
    a: "os_Syscall6 os (SysLockFileEx (fd m) 3 0 1 0 zero_Overlapped) (os_state w)
          = ((r1, e1), k')"
    by (metis prod.collapse)
  show ?thesis
    by (simp add: TryLock_eq [OF a] a flags_ucast)
qed

theorem TryLock_AlreadyLocked_witness:
  "fst (os_Syscall6 (stub_os (0, 0x21) (0, None) None)
          (SysLockFileEx (fd \<lparr>fd = 7\<rparr>) 3 0 1 0 zero_Overlapped) (os_state w0)) = (0, 0x21)
   \<and> fst (TryLock (stub_os (0, 0x21) (0, None) None) \<lparr>fd = 7\<rparr> w0) = Some AlreadyLocked
   \<and> map fail_immediately
         (calls_between w0 (snd (snd (TryLock (stub_os (0, 0x21) (0, None) None) \<lparr>fd = 7\<rparr> w0))))
       = [True]"
  using TryLock_AlreadyLocked [of w0 "stub_os (0, 0x21) (0, None) None" "\<lparr>fd = 7\<rparr>"]
  by (simp add: stub_os_def)

text \<open>
  C3, as stated, fails: the \<open>FileMutex\<close> that \<open>New\<close> returns for one path and the one
  it returns for another path are the same value when the operating system answers
  with the same handle, so the value does not hold the path.
\<close>

theorem New_two_paths_one_FileMutex:
  "New (stub_os (1, 0) (7, None) None) ''a.lock'' w0 =
     Returns ((Some \<lparr>fd = 7\<rparr>, None),
              \<lparr>os_state = (),
               issued = [SysCreateFile [0x61, 0x2E, 0x6C, 0x6F, 0x63, 0x6B, 0]
                           0xC0000000 3 4 0x80 0]\<rparr>)
   \<and> New (stub_os (1, 0) (7, None) None) ''b.lock'' w0 =
     Returns ((Some \<lparr>fd = 7\<rparr>, None),
              \<lparr>os_state = (),
               issued = [SysCreateFile [0x62, 0x2E, 0x6C, 0x6F, 0x63, 0x6B, 0]
                           0xC0000000 3 4 0x80 0]\<rparr>)
   \<and> ''a.lock'' \<noteq> ''b.lock''"
  by (simp add: New_def StringToUTF16_a_lock StringToUTF16_b_lock CreateFile_def stub_os_def
        w0_def flags_CreateFile)

text \<open>
  C3, amended. A \<open>FileMutex\<close> returned by \<open>New\<close> or by \<open>NewWithPermission\<close> holds
  the handle that the operating system answered to the one request the constructor
  sent, a \<open>syscall.CreateFile\<close>, in its only field \<open>fd\<close>, and nothing else: the path
  is not kept.
\<close>

theorem New_stores_the_handle_only:
  "(New os filename w = Returns ((Some m, err), w')
      \<longrightarrow> (\<exists>name.
             calls_between w w' =
               [SysCreateFile name (GENERIC_READ OR GENERIC_WRITE)
                  (FILE_SHARE_READ OR FILE_SHARE_WRITE) OPEN_ALWAYS FILE_ATTRIBUTE_NORMAL 0]
             \<and> m = \<lparr>fd = fst (fst (os_CreateFile os
                          (SysCreateFile name (GENERIC_READ OR GENERIC_WRITE)
                             (FILE_SHARE_READ OR FILE_SHARE_WRITE) OPEN_ALWAYS
                             FILE_ATTRIBUTE_NORMAL 0)
                          (os_state w)))\<rparr>))
   \<and> (NewWithPermission os filename perm w = Returns ((Some m, err), w')
      \<longrightarrow> (\<exists>name.
             calls_between w w' =
               [SysCreateFile name (GENERIC_READ OR GENERIC_WRITE)
                  (FILE_SHARE_READ OR FILE_SHARE_WRITE) OPEN_ALWAYS FILE_ATTRIBUTE_NORMAL 0]
             \<and> m = \<lparr>fd = fst (fst (os_CreateFile os
                          (SysCreateFile name (GENERIC_READ OR GENERIC_WRITE)
                             (FILE_SHARE_READ OR FILE_SHARE_WRITE) OPEN_ALWAYS
                             FILE_ATTRIBUTE_NORMAL 0)
                          (os_state w)))\<rparr>))"
proof -
  have "\<exists>name.
          calls_between w w' =
            [SysCreateFile name (GENERIC_READ OR GENERIC_WRITE)
               (FILE_SHARE_READ OR FILE_SHARE_WRITE) OPEN_ALWAYS FILE_ATTRIBUTE_NORMAL 0]
          \<and> m = \<lparr>fd = fst (fst (os_CreateFile os
                       (SysCreateFile name (GENERIC_READ OR GENERIC_WRITE)
                          (FILE_SHARE_READ OR FILE_SHARE_WRITE) OPEN_ALWAYS
                          FILE_ATTRIBUTE_NORMAL 0)
                       (os_state w)))\<rparr>"
    if r: "New os filename w = Returns ((Some m, err), w')"
  proof (cases "CHR 0x00 \<in> set filename")
    case True
    then show ?thesis
      using r by (simp add: New_panics)
  next
    case False
    then obtain name where n: "StringToUTF16 filename = Returns name"
      using StringToUTF16_Returns by blast
    obtain h e k' where
      a: "os_CreateFile os
            (SysCreateFile name (GENERIC_READ OR GENERIC_WRITE)
               (FILE_SHARE_READ OR FILE_SHARE_WRITE) OPEN_ALWAYS FILE_ATTRIBUTE_NORMAL 0)
            (os_state w) = ((h, e), k')"
      by (metis prod.collapse)
    have "calls_between w w' =
            [SysCreateFile name (GENERIC_READ OR GENERIC_WRITE)
               (FILE_SHARE_READ OR FILE_SHARE_WRITE) OPEN_ALWAYS FILE_ATTRIBUTE_NORMAL 0]
          \<and> m = \<lparr>fd = fst (fst (os_CreateFile os
                       (SysCreateFile name (GENERIC_READ OR GENERIC_WRITE)
                          (FILE_SHARE_READ OR FILE_SHARE_WRITE) OPEN_ALWAYS
                          FILE_ATTRIBUTE_NORMAL 0)
                       (os_state w)))\<rparr>"
      using r by (auto simp add: New_eq [OF n a] a split: if_splits)
    then show ?thesis
      by blast
  qed
  then show ?thesis
    by (simp add: NewWithPermission_def)
qed

theorem New_stores_the_handle_only_witness:
  "New (stub_os (1, 0) (7, None) None) ''a.lock'' w0 =
     Returns ((Some \<lparr>fd = 7\<rparr>, None),
              \<lparr>os_state = (),
               issued = [SysCreateFile [0x61, 0x2E, 0x6C, 0x6F, 0x63, 0x6B, 0]
                           0xC0000000 3 4 0x80 0]\<rparr>)
   \<and> NewWithPermission (stub_os (1, 0) (7, None) None) ''a.lock'' 0x1A4 w0 =
     Returns ((Some \<lparr>fd = 7\<rparr>, None),
              \<lparr>os_state = (),
               issued = [SysCreateFile [0x61, 0x2E, 0x6C, 0x6F, 0x63, 0x6B, 0]
                           0xC0000000 3 4 0x80 0]\<rparr>)
   \<and> (\<exists>name.
         calls_between w0
           \<lparr>os_state = (),
            issued = [SysCreateFile [0x61, 0x2E, 0x6C, 0x6F, 0x63, 0x6B, 0]
                        0xC0000000 3 4 0x80 0]\<rparr> =
           [SysCreateFile name (GENERIC_READ OR GENERIC_WRITE)
              (FILE_SHARE_READ OR FILE_SHARE_WRITE) OPEN_ALWAYS FILE_ATTRIBUTE_NORMAL 0]
         \<and> \<lparr>fd = 7\<rparr> =
             \<lparr>fd = fst (fst (os_CreateFile (stub_os (1, 0) (7, None) None)
                      (SysCreateFile name (GENERIC_READ OR GENERIC_WRITE)
                         (FILE_SHARE_READ OR FILE_SHARE_WRITE) OPEN_ALWAYS
                         FILE_ATTRIBUTE_NORMAL 0)
                      (os_state w0)))\<rparr>)"
proof -
  have n: "New (stub_os (1, 0) (7, None) None) ''a.lock'' w0 =
     Returns ((Some \<lparr>fd = 7\<rparr>, None),
              \<lparr>os_state = (),
               issued = [SysCreateFile [0x61, 0x2E, 0x6C, 0x6F, 0x63, 0x6B, 0]
                           0xC0000000 3 4 0x80 0]\<rparr>)"
    by (simp add: New_def StringToUTF16_a_lock CreateFile_def stub_os_def w0_def
          flags_CreateFile)
  have p: "NewWithPermission (stub_os (1, 0) (7, None) None) ''a.lock'' 0x1A4 w0 =
     Returns ((Some \<lparr>fd = 7\<rparr>, None),
              \<lparr>os_state = (),
               issued = [SysCreateFile [0x61, 0x2E, 0x6C, 0x6F, 0x63, 0x6B, 0]
                           0xC0000000 3 4 0x80 0]\<rparr>)"
    using n by (simp add: NewWithPermission_def)
  from n
    New_stores_the_handle_only
      [where os = "stub_os (1, 0) (7, None) None" and filename = "''a.lock''" and w = w0
         and m = "\<lparr>fd = 7\<rparr>" and err = None and perm = "0x1A4"
         and w' = "\<lparr>os_state = (),
                    issued = [SysCreateFile [0x61, 0x2E, 0x6C, 0x6F, 0x63, 0x6B, 0]
                                0xC0000000 3 4 0x80 0]\<rparr>"]
  have "\<exists>name.
         calls_between w0
           \<lparr>os_state = (),
            issued = [SysCreateFile [0x61, 0x2E, 0x6C, 0x6F, 0x63, 0x6B, 0]
                        0xC0000000 3 4 0x80 0]\<rparr> =
           [SysCreateFile name (GENERIC_READ OR GENERIC_WRITE)
              (FILE_SHARE_READ OR FILE_SHARE_WRITE) OPEN_ALWAYS FILE_ATTRIBUTE_NORMAL 0]
         \<and> \<lparr>fd = 7\<rparr> =
             \<lparr>fd = fst (fst (os_CreateFile (stub_os (1, 0) (7, None) None)
                      (SysCreateFile name (GENERIC_READ OR GENERIC_WRITE)
                         (FILE_SHARE_READ OR FILE_SHARE_WRITE) OPEN_ALWAYS
                         FILE_ATTRIBUTE_NORMAL 0)
                      (os_state w0)))\<rparr>"
    by blast
  with n p show ?thesis
    by blast
qed

text \<open>
  C4. \<open>NewWithPermission\<close> gives what \<open>New\<close> gives, for every file name and every
  permission mode: the same result, the same requests, the same panic.
\<close>

theorem NewWithPermission_is_New:
  "NewWithPermission os filename perm w = New os filename w"
  by (simp add: NewWithPermission_def)

text \<open>
  C5. \<open>RUnlock\<close> and \<open>Unlock\<close> are the same operation: the same result, receiver and
  world on every input, and each sends the one unlock request on the handle of the
  \<open>FileMutex\<close> and the sentinel byte range.
\<close>

theorem RUnlock_is_Unlock:
  "RUnlock os m w = Unlock os m w
   \<and> calls_between w (snd (snd (Unlock os m w)))
       = [SysUnlockFileEx (fd m) 0 1 0 zero_Overlapped]
   \<and> calls_between w (snd (snd (RUnlock os m w)))
       = [SysUnlockFileEx (fd m) 0 1 0 zero_Overlapped]"
proof -
  obtain r1 e1 k' where
    a: "os_Syscall6 os (SysUnlockFileEx (fd m) 0 1 0 zero_Overlapped) (os_state w)
          = ((r1, e1), k')"
    by (metis prod.collapse)
  show ?thesis
    by (simp add: Unlock_eq [OF a] RUnlock_eq [OF a])
qed

text \<open>
  C6. Every request that \<open>Lock\<close>, \<open>TryLock\<close>, \<open>RLock\<close>, \<open>Unlock\<close>, \<open>RUnlock\<close> and
  \<open>Close\<close> send is given here. The lock and unlock requests all name the same byte
  range, the sentinel: offset 0, length low 1, length high 0. The only other request is
  the close of the handle, which \<open>Close\<close> sends after an unlock that reported no
  error. No request reads or writes the file.
\<close>

theorem operations_target_sentinel:
  "calls_between w (snd (snd (Lock os m w)))
     = [SysLockFileEx (fd m) 2 0 1 0 zero_Overlapped]
   \<and> calls_between w (snd (snd (TryLock os m w)))
       = [SysLockFileEx (fd m) 3 0 1 0 zero_Overlapped]
   \<and> calls_between w (snd (snd (RLock os m w)))
       = [SysLockFileEx (fd m) 0 0 1 0 zero_Overlapped]
   \<and> calls_between w (snd (snd (Unlock os m w)))
       = [SysUnlockFileEx (fd m) 0 1 0 zero_Overlapped]
   \<and> calls_between w (snd (snd (RUnlock os m w)))
       = [SysUnlockFileEx (fd m) 0 1 0 zero_Overlapped]
   \<and> calls_between w (snd (snd (Close os m w)))
       = SysUnlockFileEx (fd m) 0 1 0 zero_Overlapped
         # (if fst (unlockFileEx os (fd m) 0 1 0 zero_Overlapped w) = None
            then [SysCloseHandle (fd m)] else [])
   \<and> byte_range (SysLockFileEx (fd m) flags 0 1 0 zero_Overlapped) = Some sentinel
   \<and> byte_range (SysUnlockFileEx (fd m) 0 1 0 zero_Overlapped) = Some sentinel
   \<and> sentinel = (0, 0, 1, 0)"
proof -
  obtain r1 e1 k1 where
    a: "os_Syscall6 os (SysLockFileEx (fd m) 2 0 1 0 zero_Overlapped) (os_state w)
          = ((r1, e1), k1)"
    by (metis prod.collapse)
  obtain r2 e2 k2 where
    b: "os_Syscall6 os (SysLockFileEx (fd m) 3 0 1 0 zero_Overlapped) (os_state w)
          = ((r2, e2), k2)"
    by (metis prod.collapse)
  obtain r3 e3 k3 where
    c: "os_Syscall6 os (SysLockFileEx (fd m) 0 0 1 0 zero_Overlapped) (os_state w)
          = ((r3, e3), k3)"
    by (metis prod.collapse)
  obtain r4 e4 k4 where
    d: "os_Syscall6 os (SysUnlockFileEx (fd m) 0 1 0 zero_Overlapped) (os_state w)
          = ((r4, e4), k4)"
    by (metis prod.collapse)
  obtain cerr k5 where
    e: "os_Close os (SysCloseHandle (fd m)) k4 = (cerr, k5)"
    by (metis prod.collapse)
  have "calls_between w (snd (snd (Lock os m w)))
          = [SysLockFileEx (fd m) 2 0 1 0 zero_Overlapped]"
    by (simp add: Lock_eq [OF a])
  moreover have "calls_between w (snd (snd (TryLock os m w)))
          = [SysLockFileEx (fd m) 3 0 1 0 zero_Overlapped]"
    by (simp add: TryLock_eq [OF b])
  moreover have "calls_between w (snd (snd (RLock os m w)))
          = [SysLockFileEx (fd m) 0 0 1 0 zero_Overlapped]"
    by (simp add: RLock_eq [OF c])
  moreover have "calls_between w (snd (snd (Unlock os m w)))
          = [SysUnlockFileEx (fd m) 0 1 0 zero_Overlapped]"
    by (simp add: Unlock_eq [OF d])
  moreover have "calls_between w (snd (snd (RUnlock os m w)))
          = [SysUnlockFileEx (fd m) 0 1 0 zero_Overlapped]"
    by (simp add: RUnlock_eq [OF d])
  moreover have "calls_between w (snd (snd (Close os m w)))
       = SysUnlockFileEx (fd m) 0 1 0 zero_Overlapped
         # (if fst (unlockFileEx os (fd m) 0 1 0 zero_Overlapped w) = None
            then [SysCloseHandle (fd m)] else [])"
    by (simp add: Close_eq [OF d e] unlock_step_eq [OF d])
  moreover have "byte_range (SysLockFileEx (fd m) flags 0 1 0 zero_Overlapped) = Some sentinel"
    by (simp add: sentinel_def zero_Overlapped_def)
  moreover have "byte_range (SysUnlockFileEx (fd m) 0 1 0 zero_Overlapped) = Some sentinel"
    by (simp add: sentinel_def zero_Overlapped_def)
  moreover have "sentinel = (0, 0, 1, 0)"
    by (simp add: sentinel_def)
  ultimately show ?thesis
    by blast
qed

text \<open>
  C7. \<open>Lock\<close>, \<open>TryLock\<close>, \<open>RLock\<close>, \<open>Unlock\<close> and \<open>RUnlock\<close> leave their
  \<open>FileMutex\<close> as they found it. Its only field is the handle, so there is no field
  where a lock state could be kept.
\<close>

theorem lock_operations_keep_FileMutex:
  "fst (snd (Lock os m w)) = m
   \<and> fst (snd (TryLock os m w)) = m
   \<and> fst (snd (RLock os m w)) = m
   \<and> fst (snd (Unlock os m w)) = m
   \<and> fst (snd (RUnlock os m w)) = m
   \<and> m = \<lparr>fd = fd m\<rparr>"
proof -
  obtain r1 e1 k1 where
    a: "os_Syscall6 os (SysLockFileEx (fd m) 2 0 1 0 zero_Overlapped) (os_state w)
          = ((r1, e1), k1)"
    by (metis prod.collapse)
  obtain r2 e2 k2 where
    b: "os_Syscall6 os (SysLockFileEx (fd m) 3 0 1 0 zero_Overlapped) (os_state w)
          = ((r2, e2), k2)"
    by (metis prod.collapse)
  obtain r3 e3 k3 where
    c: "os_Syscall6 os (SysLockFileEx (fd m) 0 0 1 0 zero_Overlapped) (os_state w)
          = ((r3, e3), k3)"
    by (metis prod.collapse)
  obtain r4 e4 k4 where
    d: "os_Syscall6 os (SysUnlockFileEx (fd m) 0 1 0 zero_Overlapped) (os_state w)
          = ((r4, e4), k4)"
    by (metis prod.collapse)
  show ?thesis
    by (simp add: Lock_eq [OF a] TryLock_eq [OF b] RLock_eq [OF c] Unlock_eq [OF d]
          RUnlock_eq [OF d])
qed

text \<open>
  C8. \<open>New\<close> is to open the file at the path and to return an error, and no
  \<open>FileMutex\<close>, exactly when the open fails. On a path with a NUL byte, which no open
  can succeed on, \<open>New\<close> returns nothing: \<open>syscall.StringToUTF16\<close> panics before any
  request is sent.
\<close>

theorem New_panics_on_NUL:
  "New (stub_os (1, 0) (7, None) None) [CHR ''a'', CHR 0x00, CHR ''b''] w0 = Panics"
  by (simp add: New_def StringToUTF16_def)

text \<open>
  C9. No operation retries or recovers: when the request of an operation fails, the
  operation returns the error of that request, and the request is the only one it has
  sent (for \<open>Close\<close> after a good unlock: the unlock and the close, once each). The
  error is the one the failed call gave (for the two \<open>Syscall6\<close> wrappers the errno
  reported, or \<open>EINVAL\<close> when the errno reported is zero), but for \<open>TryLock\<close>, which
  returns \<open>AlreadyLocked\<close> for the errno \<open>0x21\<close>. \<open>New\<close> sends its request on a
  path with no NUL byte, one \<open>syscall.CreateFile\<close>, and returns what that request
  answered: its error as it is, with no \<open>FileMutex\<close>, when it failed.
\<close>

theorem failures_returned_without_retry:
  "(CHR 0x00 \<notin> set filename \<longrightarrow>
      (\<exists>name h err k1.
          os_CreateFile os
            (SysCreateFile name (GENERIC_READ OR GENERIC_WRITE)
               (FILE_SHARE_READ OR FILE_SHARE_WRITE) OPEN_ALWAYS FILE_ATTRIBUTE_NORMAL 0)
            (os_state w) = ((h, err), k1)
          \<and> New os filename w =
              Returns ((if err \<noteq> None then None else Some \<lparr>fd = h\<rparr>, err),
                       \<lparr>os_state = k1,
                        issued = issued w @
                          [SysCreateFile name (GENERIC_READ OR GENERIC_WRITE)
                             (FILE_SHARE_READ OR FILE_SHARE_WRITE) OPEN_ALWAYS
                             FILE_ATTRIBUTE_NORMAL 0]\<rparr>)))
   \<and> (os_Syscall6 os (SysLockFileEx (fd m) 2 0 1 0 zero_Overlapped) (os_state w)
         = ((0, e1), k')
      \<longrightarrow> Lock os m w =
            (Some (Errno (if e1 \<noteq> 0 then e1 else EINVAL)), m,
             \<lparr>os_state = k',
              issued = issued w @ [SysLockFileEx (fd m) 2 0 1 0 zero_Overlapped]\<rparr>))
   \<and> (os_Syscall6 os (SysLockFileEx (fd m) 3 0 1 0 zero_Overlapped) (os_state w)
         = ((0, e1), k')
      \<longrightarrow> TryLock os m w =
            (Some (if e1 = 0x21 then AlreadyLocked
                   else Errno (if e1 \<noteq> 0 then e1 else EINVAL)), m,
             \<lparr>os_state = k',
              issued = issued w @ [SysLockFileEx (fd m) 3 0 1 0 zero_Overlapped]\<rparr>))
   \<and> (os_Syscall6 os (SysLockFileEx (fd m) 0 0 1 0 zero_Overlapped) (os_state w)
         = ((0, e1), k')
      \<longrightarrow> RLock os m w =
            (Some (Errno (if e1 \<noteq> 0 then e1 else EINVAL)), m,
             \<lparr>os_state = k',
              issued = issued w @ [SysLockFileEx (fd m) 0 0 1 0 zero_Overlapped]\<rparr>))
   \<and> (os_Syscall6 os (SysUnlockFileEx (fd m) 0 1 0 zero_Overlapped) (os_state w)
         = ((0, e1), k')
      \<longrightarrow> Unlock os m w =
            (Some (Errno (if e1 \<noteq> 0 then e1 else EINVAL)), m,
             \<lparr>os_state = k',
              issued = issued w @ [SysUnlockFileEx (fd m) 0 1 0 zero_Overlapped]\<rparr>)
          \<and> RUnlock os m w =
            (Some (Errno (if e1 \<noteq> 0 then e1 else EINVAL)), m,
             \<lparr>os_state = k',
              issued = issued w @ [SysUnlockFileEx (fd m) 0 1 0 zero_Overlapped]\<rparr>)
          \<and> Close os m w =
            (Some (Errno (if e1 \<noteq> 0 then e1 else EINVAL)), m,
             \<lparr>os_state = k',
              issued = issued w @ [SysUnlockFileEx (fd m) 0 1 0 zero_Overlapped]\<rparr>))
   \<and> (os_Syscall6 os (SysUnlockFileEx (fd m) 0 1 0 zero_Overlapped) (os_state w)
         = ((r1, e1), k')
      \<longrightarrow> r1 \<noteq> 0
      \<longrightarrow> os_Close os (SysCloseHandle (fd m)) k' = (Some e, k'')
      \<longrightarrow> Close os m w =
            (Some e, m,
             \<lparr>os_state = k'',
              issued = issued w @ [SysUnlockFileEx (fd m) 0 1 0 zero_Overlapped,
                                   SysCloseHandle (fd m)]\<rparr>))"
proof (intro conjI impI)
  assume "CHR 0x00 \<notin> set filename"
  then obtain name where n: "StringToUTF16 filename = Returns name"
    using StringToUTF16_Returns by blast
  obtain h err k1 where
    a: "os_CreateFile os
          (SysCreateFile name (GENERIC_READ OR GENERIC_WRITE)
             (FILE_SHARE_READ OR FILE_SHARE_WRITE) OPEN_ALWAYS FILE_ATTRIBUTE_NORMAL 0)
          (os_state w) = ((h, err), k1)"
    by (metis prod.collapse)
  from a New_eq [OF n a]
  show "\<exists>name h err k1.
          os_CreateFile os
            (SysCreateFile name (GENERIC_READ OR GENERIC_WRITE)
               (FILE_SHARE_READ OR FILE_SHARE_WRITE) OPEN_ALWAYS FILE_ATTRIBUTE_NORMAL 0)
            (os_state w) = ((h, err), k1)
          \<and> New os filename w =
              Returns ((if err \<noteq> None then None else Some \<lparr>fd = h\<rparr>, err),
                       \<lparr>os_state = k1,
                        issued = issued w @
                          [SysCreateFile name (GENERIC_READ OR GENERIC_WRITE)
                             (FILE_SHARE_READ OR FILE_SHARE_WRITE) OPEN_ALWAYS
                             FILE_ATTRIBUTE_NORMAL 0]\<rparr>)"
    by blast
next
  assume "os_Syscall6 os (SysLockFileEx (fd m) 2 0 1 0 zero_Overlapped) (os_state w)
            = ((0, e1), k')"
  from Lock_eq [OF this]
  show "Lock os m w =
            (Some (Errno (if e1 \<noteq> 0 then e1 else EINVAL)), m,
             \<lparr>os_state = k',
              issued = issued w @ [SysLockFileEx (fd m) 2 0 1 0 zero_Overlapped]\<rparr>)"
    by simp
next
  assume "os_Syscall6 os (SysLockFileEx (fd m) 3 0 1 0 zero_Overlapped) (os_state w)
            = ((0, e1), k')"
  from TryLock_eq [OF this]
  show "TryLock os m w =
            (Some (if e1 = 0x21 then AlreadyLocked
                   else Errno (if e1 \<noteq> 0 then e1 else EINVAL)), m,
             \<lparr>os_state = k',
              issued = issued w @ [SysLockFileEx (fd m) 3 0 1 0 zero_Overlapped]\<rparr>)"
    by simp
next
  assume "os_Syscall6 os (SysLockFileEx (fd m) 0 0 1 0 zero_Overlapped) (os_state w)
            = ((0, e1), k')"
  from RLock_eq [OF this]
  show "RLock os m w =
            (Some (Errno (if e1 \<noteq> 0 then e1 else EINVAL)), m,
             \<lparr>os_state = k',
              issued = issued w @ [SysLockFileEx (fd m) 0 0 1 0 zero_Overlapped]\<rparr>)"
    by simp
next
  assume a: "os_Syscall6 os (SysUnlockFileEx (fd m) 0 1 0 zero_Overlapped) (os_state w)
            = ((0, e1), k')"
  from Unlock_eq [OF a]
  show "Unlock os m w =
            (Some (Errno (if e1 \<noteq> 0 then e1 else EINVAL)), m,
             \<lparr>os_state = k',
              issued = issued w @ [SysUnlockFileEx (fd m) 0 1 0 zero_Overlapped]\<rparr>)"
    by simp
  from RUnlock_eq [OF a]
  show "RUnlock os m w =
            (Some (Errno (if e1 \<noteq> 0 then e1 else EINVAL)), m,
             \<lparr>os_state = k',
              issued = issued w @ [SysUnlockFileEx (fd m) 0 1 0 zero_Overlapped]\<rparr>)"
    by simp
  obtain cerr kc where "os_Close os (SysCloseHandle (fd m)) k' = (cerr, kc)"
    by (metis prod.collapse)
  from Close_eq [OF a this]
  show "Close os m w =
            (Some (Errno (if e1 \<noteq> 0 then e1 else EINVAL)), m,
             \<lparr>os_state = k',
              issued = issued w @ [SysUnlockFileEx (fd m) 0 1 0 zero_Overlapped]\<rparr>)"
    by simp
next
  assume a: "os_Syscall6 os (SysUnlockFileEx (fd m) 0 1 0 zero_Overlapped) (os_state w)
            = ((r1, e1), k')"
    and b: "r1 \<noteq> 0"
    and c: "os_Close os (SysCloseHandle (fd m)) k' = (Some e, k'')"
  from Close_eq [OF a c] b
  show "Close os m w =
            (Some e, m,
             \<lparr>os_state = k'',
              issued = issued w @ [SysUnlockFileEx (fd m) 0 1 0 zero_Overlapped,
                                   SysCloseHandle (fd m)]\<rparr>)"
    by simp
qed

theorem failures_returned_without_retry_witness:
  "CHR 0x00 \<notin> set ''a.lock''
   \<and> (\<exists>name h err k1.
          os_CreateFile (stub_os (0, 0x21) (0xFFFFFFFFFFFFFFFF, Some (Errno 5)) None)
            (SysCreateFile name (GENERIC_READ OR GENERIC_WRITE)
               (FILE_SHARE_READ OR FILE_SHARE_WRITE) OPEN_ALWAYS FILE_ATTRIBUTE_NORMAL 0)
            (os_state w0) = ((h, err), k1)
          \<and> New (stub_os (0, 0x21) (0xFFFFFFFFFFFFFFFF, Some (Errno 5)) None) ''a.lock'' w0 =
              Returns ((if err \<noteq> None then None else Some \<lparr>fd = h\<rparr>, err),
                       \<lparr>os_state = k1,
                        issued = issued w0 @
                          [SysCreateFile name (GENERIC_READ OR GENERIC_WRITE)
                             (FILE_SHARE_READ OR FILE_SHARE_WRITE) OPEN_ALWAYS
                             FILE_ATTRIBUTE_NORMAL 0]\<rparr>))
   \<and> New (stub_os (0, 0x21) (0xFFFFFFFFFFFFFFFF, Some (Errno 5)) None) ''a.lock'' w0 =
       Returns ((None, Some (Errno 5)),
                \<lparr>os_state = (),
                 issued = [SysCreateFile [0x61, 0x2E, 0x6C, 0x6F, 0x63, 0x6B, 0]
                             0xC0000000 3 4 0x80 0]\<rparr>)
   \<and> os_Syscall6 (stub_os (0, 0x21) (0xFFFFFFFFFFFFFFFF, Some (Errno 5)) None)
        (SysLockFileEx 7 2 0 1 0 zero_Overlapped) (os_state w0) = ((0, 0x21), ())
   \<and> Lock (stub_os (0, 0x21) (0xFFFFFFFFFFFFFFFF, Some (Errno 5)) None) \<lparr>fd = 7\<rparr> w0 =
       (Some (Errno 0x21), \<lparr>fd = 7\<rparr>,
        \<lparr>os_state = (), issued = [SysLockFileEx 7 2 0 1 0 zero_Overlapped]\<rparr>)
   \<and> os_Syscall6 (stub_os (0, 0x21) (0xFFFFFFFFFFFFFFFF, Some (Errno 5)) None)
        (SysLockFileEx 7 3 0 1 0 zero_Overlapped) (os_state w0) = ((0, 0x21), ())
   \<and> TryLock (stub_os (0, 0x21) (0xFFFFFFFFFFFFFFFF, Some (Errno 5)) None) \<lparr>fd = 7\<rparr> w0 =
       (Some AlreadyLocked, \<lparr>fd = 7\<rparr>,
        \<lparr>os_state = (), issued = [SysLockFileEx 7 3 0 1 0 zero_Overlapped]\<rparr>)
   \<and> os_Syscall6 (stub_os (0, 0x21) (0xFFFFFFFFFFFFFFFF, Some (Errno 5)) None)
        (SysLockFileEx 7 0 0 1 0 zero_Overlapped) (os_state w0) = ((0, 0x21), ())
   \<and> RLock (stub_os (0, 0x21) (0xFFFFFFFFFFFFFFFF, Some (Errno 5)) None) \<lparr>fd = 7\<rparr> w0 =
       (Some (Errno 0x21), \<lparr>fd = 7\<rparr>,
        \<lparr>os_state = (), issued = [SysLockFileEx 7 0 0 1 0 zero_Overlapped]\<rparr>)
   \<and> os_Syscall6 (stub_os (0, 0x21) (0xFFFFFFFFFFFFFFFF, Some (Errno 5)) None)
        (SysUnlockFileEx 7 0 1 0 zero_Overlapped) (os_state w0) = ((0, 0x21), ())
   \<and> Unlock (stub_os (0, 0x21) (0xFFFFFFFFFFFFFFFF, Some (Errno 5)) None) \<lparr>fd = 7\<rparr> w0 =
       (Some (Errno 0x21), \<lparr>fd = 7\<rparr>,
        \<lparr>os_state = (), issued = [SysUnlockFileEx 7 0 1 0 zero_Overlapped]\<rparr>)
   \<and> RUnlock (stub_os (0, 0x21) (0xFFFFFFFFFFFFFFFF, Some (Errno 5)) None) \<lparr>fd = 7\<rparr> w0 =
       (Some (Errno 0x21), \<lparr>fd = 7\<rparr>,
        \<lparr>os_state = (), issued = [SysUnlockFileEx 7 0 1 0 zero_Overlapped]\<rparr>)
   \<and> Close (stub_os (0, 0x21) (0xFFFFFFFFFFFFFFFF, Some (Errno 5)) None) \<lparr>fd = 7\<rparr> w0 =
       (Some (Errno 0x21), \<lparr>fd = 7\<rparr>,
        \<lparr>os_state = (), issued = [SysUnlockFileEx 7 0 1 0 zero_Overlapped]\<rparr>)
   \<and> os_Syscall6 (stub_os (1, 0) (7, None) (Some (Errno 6)))
        (SysUnlockFileEx 7 0 1 0 zero_Overlapped) (os_state w0) = ((1, 0), ())
   \<and> (1 :: uintptr) \<noteq> 0
   \<and> os_Close (stub_os (1, 0) (7, None) (Some (Errno 6))) (SysCloseHandle 7) ()
       = (Some (Errno 6), ())
   \<and> Close (stub_os (1, 0) (7, None) (Some (Errno 6))) \<lparr>fd = 7\<rparr> w0 =
       (Some (Errno 6), \<lparr>fd = 7\<rparr>,
        \<lparr>os_state = (),
         issued = [SysUnlockFileEx 7 0 1 0 zero_Overlapped, SysCloseHandle 7]\<rparr>)"
  (is "?A \<and> ?B \<and> ?C \<and> ?R")
proof -
  note t1 =
    failures_returned_without_retry
      [where filename = "''a.lock''"
         and os = "stub_os (0, 0x21) (0xFFFFFFFFFFFFFFFF, Some (Errno 5)) None"
         and w = w0 and e = "Errno 5" and k' = "()"
         and m = "\<lparr>fd = 7\<rparr>" and ?e1.0 = "0x21" and ?r1.0 = 0 and k'' = "()"]
  note t2 =
    failures_returned_without_retry
      [where filename = "''a.lock''"
         and os = "stub_os (1, 0) (7, None) (Some (Errno 6))"
         and w = w0 and e = "Errno 6" and k' = "()"
         and m = "\<lparr>fd = 7\<rparr>" and ?e1.0 = 0 and ?r1.0 = 1 and k'' = "()"]
  have a: ?A
    by simp
  have b: ?B
    using t1 a by blast
  have c: ?C
    by (simp add: New_def StringToUTF16_a_lock CreateFile_def stub_os_def w0_def
          flags_CreateFile)
  have r: ?R
    using conjunct2 [OF t1] conjunct2 [OF t2]
    by (simp add: stub_os_def w0_def)
  from a b c r show ?thesis
    by blast
qed

text \<open>
  C10. In \<open>lockFileEx\<close> and \<open>unlockFileEx\<close>, whenever the syscall reports failure
  (\<open>r1 = 0\<close>), the wrapper returns an error: the errno \<open>e1\<close> the syscall reported
  when it is not zero, and \<open>syscall.EINVAL\<close> when it is zero. So the wrapper never
  returns \<open>nil\<close> for a failed syscall.
\<close>

theorem syscall_wrappers_report_failure:
  "(fst (os_Syscall6 os
           (SysLockFileEx h (ucast flags) (ucast reserved) (ucast locklow) (ucast lockhigh) ol)
           (os_state w)) = (0, e1)
      \<longrightarrow> fst (lockFileEx os h flags reserved locklow lockhigh ol w)
            = Some (Errno (if e1 \<noteq> 0 then e1 else EINVAL)))
   \<and> (fst (os_Syscall6 os
              (SysUnlockFileEx h (ucast reserved) (ucast locklow) (ucast lockhigh) ol)
              (os_state w)) = (0, e1)
      \<longrightarrow> fst (unlockFileEx os h reserved locklow lockhigh ol w)
            = Some (Errno (if e1 \<noteq> 0 then e1 else EINVAL)))"
proof (intro conjI impI)
  assume a: "fst (os_Syscall6 os
           (SysLockFileEx h (ucast flags) (ucast reserved) (ucast locklow) (ucast lockhigh) ol)
           (os_state w)) = (0, e1)"
  obtain k' where "os_Syscall6 os
           (SysLockFileEx h (ucast flags) (ucast reserved) (ucast locklow) (ucast lockhigh) ol)
           (os_state w) = ((0, e1), k')"
    using a by (metis prod.collapse)
  from lockFileEx_eq [OF this]
  show "fst (lockFileEx os h flags reserved locklow lockhigh ol w)
            = Some (Errno (if e1 \<noteq> 0 then e1 else EINVAL))"
    by simp
next
  assume a: "fst (os_Syscall6 os
              (SysUnlockFileEx h (ucast reserved) (ucast locklow) (ucast lockhigh) ol)
              (os_state w)) = (0, e1)"
  obtain k' where "os_Syscall6 os
              (SysUnlockFileEx h (ucast reserved) (ucast locklow) (ucast lockhigh) ol)
              (os_state w) = ((0, e1), k')"
    using a by (metis prod.collapse)
  from unlockFileEx_eq [OF this]
  show "fst (unlockFileEx os h reserved locklow lockhigh ol w)
            = Some (Errno (if e1 \<noteq> 0 then e1 else EINVAL))"
    by simp
qed

theorem syscall_wrappers_report_failure_witness:
  "fst (os_Syscall6 (stub_os (0, 5) (0, None) None)
          (SysLockFileEx 7 (ucast (2 :: uint32)) (ucast (0 :: uint32)) (ucast (1 :: uint32))
             (ucast (0 :: uint32)) zero_Overlapped) (os_state w0)) = (0, 5)
   \<and> fst (lockFileEx (stub_os (0, 5) (0, None) None) 7 2 0 1 0 zero_Overlapped w0)
       = Some (Errno 5)
   \<and> fst (os_Syscall6 (stub_os (0, 0) (0, None) None)
            (SysUnlockFileEx 7 (ucast (0 :: uint32)) (ucast (1 :: uint32))
               (ucast (0 :: uint32)) zero_Overlapped) (os_state w0)) = (0, 0)
   \<and> fst (unlockFileEx (stub_os (0, 0) (0, None) None) 7 0 1 0 zero_Overlapped w0)
       = Some (Errno EINVAL)"
  using
    syscall_wrappers_report_failure
      [of "stub_os (0, 5) (0, None) None" 7 2 0 1 0 zero_Overlapped w0 5]
    syscall_wrappers_report_failure
      [of "stub_os (0, 0) (0, None) None" 7 2 0 1 0 zero_Overlapped w0 0]
  by (simp add: stub_os_def)

end
